theory Spec2Isabelle
  imports Main "HOL-Library.Sublist"
begin

section \<open>The transformation client of the ID photo generator\<close>

text \<open>
  This theory embeds \<^verbatim>\<open>src/services/geminiService.ts\<close>: the module
  initialisation (reading \<^verbatim>\<open>API_KEY\<close>, the warning, the construction of the
  client) and the one exported function \<^verbatim>\<open>transformToIdPhoto\<close>.

  The remote service and the \<^verbatim>\<open>@google/genai\<close> library are outside the
  repository. They enter the model as parameters: the constructor of the client, the
  client's \<^verbatim>\<open>generateContent\<close> method (a function of the request and of the
  state of the outside world, which it may change), and the wording of the
  \<^verbatim>\<open>TypeError\<close>s of the JavaScript engine.
\<close>

subsection \<open>Data of the request and of the response\<close>

text \<open>
  The fields read by the code are all optional in JavaScript: a missing field reads as
  \<^verbatim>\<open>undefined\<close>, modelled by \<open>None\<close>. The field \<^verbatim>\<open>text\<close> of a part
  is written \<open>text'\<close>, and only the first candidate of a response is ever read.
\<close>

record blob =
  data :: "string option"
  mimeType :: "string option"

record part =
  inlineData :: "blob option"
  text' :: "string option"

record content =
  parts :: "part list option"

record candidate =
  content :: "content option"

record generateContentResponse =
  candidates :: "candidate list option"

datatype modality = IMAGE | TEXT

record generateContentConfig =
  responseModalities :: "modality list"

record generateContentParameters =
  model :: string
  contents :: content
  config :: generateContentConfig

subsection \<open>Thrown values, promise outcomes, effects\<close>

text \<open>
  A thrown value either is an instance of \<^verbatim>\<open>Error\<close>, of which the code reads
  the \<^verbatim>\<open>message\<close>, or is any other value, kept here by its printed form.
\<close>

datatype thrown = ErrorInstance string | NonError string

text \<open>The places where the engine itself throws a \<^verbatim>\<open>TypeError\<close>.\<close>

datatype fault = ReadOfUndefined string | NotIterable

datatype outcome = Resolved string | Rejected thrown

datatype event =
  ConsoleWarn string
  | ConsoleError thrown
  | GenerateContent generateContentParameters

type_synonym 'w client = "generateContentParameters \<Rightarrow> 'w \<Rightarrow> (thrown + generateContentResponse) \<times> 'w"

record 'w runtime =
  ai :: "'w client"
  typeError :: "fault \<Rightarrow> string"

subsection \<open>Module initialisation (lines 3 to 9)\<close>

text \<open>
  \<^verbatim>\<open>!API_KEY\<close> holds for \<^verbatim>\<open>undefined\<close> and for the empty string.
\<close>

definition falsy :: "string option \<Rightarrow> bool" where
  "falsy s = (case s of None \<Rightarrow> True | Some v \<Rightarrow> v = [])"



subsection \<open>The request (lines 20 to 48)\<close>

definition instruction :: "string \<Rightarrow> string" where
  "instruction aspectRatio =
     ''Transform the person in the image into a standard ID photo.\<newline>'' @
     ''\<newline>'' @
     ''**CRITICAL INSTRUCTIONS:**\<newline>'' @
     ''1.  **Final Image Dimensions:** The MOST IMPORTANT requirement is the final image's aspect ratio. It **MUST BE EXACTLY '' @
     aspectRatio @
     '' (width to height)**. The entire output image file must have this specific shape. This instruction is more important than all others. Do not fail on this.\<newline>'' @
     ''2.  **Attire:** Dress the person in a simple, plain white collared shirt.\<newline>'' @
     ''3.  **Posture:** The person must face forward, looking directly at the camera with their shoulders straight and squared.\<newline>'' @
     ''4.  **Background:** Replace the entire background with a solid, plain, professional light blue color.\<newline>'' @
     ''5.  **Composition:** Crop the image to a head-and-shoulders portrait.\<newline>'' @
     ''6.  **Identity Preservation:** Do not change the person's face, hair, or identity.\<newline>'' @
     ''\<newline>'' @
     ''Reminder: The final image's aspect ratio **MUST be '' @
     aspectRatio @
     ''**. This is a strict requirement.''"

definition request :: "string \<Rightarrow> string \<Rightarrow> string \<Rightarrow> generateContentParameters" where
  "request base64ImageData mimeType' aspectRatio =
     \<lparr>model = ''gemini-2.5-flash-image-preview'',
      contents = \<lparr>parts = Some
        [\<lparr>inlineData = Some \<lparr>data = Some base64ImageData, mimeType = Some mimeType'\<rparr>,
          text' = None\<rparr>,
         \<lparr>inlineData = None, text' = Some (instruction aspectRatio)\<rparr>]\<rparr>,
      config = \<lparr>responseModalities = [IMAGE, TEXT]\<rparr>\<rparr>"

subsection \<open>Reading the response (lines 51 to 57)\<close>

text \<open>
  The loop over the parts returns the data of the first part whose
  \<^verbatim>\<open>inlineData\<close> is present and whose \<^verbatim>\<open>data\<close> is truthy (present and
  not the empty string); \<open>None\<close> stands for falling out of the loop.
\<close>

fun scan_parts :: "part list \<Rightarrow> string option" where
  "scan_parts [] = None"
| "scan_parts (p # ps) =
     (case inlineData p of
        None \<Rightarrow> scan_parts ps
      | Some b \<Rightarrow> (if falsy (data b) then scan_parts ps else data b))"

definition no_image_message :: string where
  "no_image_message = ''The AI did not return an image. Please try a different photo.''"

text \<open>
  \<^verbatim>\<open>response.candidates[0].content.parts\<close>, then the loop, then the
  \<^verbatim>\<open>throw\<close> of line 57. Reading \<^verbatim>\<open>[0]\<close> of a missing list, reading
  \<^verbatim>\<open>content\<close> of a missing first candidate, reading \<^verbatim>\<open>parts\<close> of a
  missing content and iterating over a missing list of parts each make the engine throw
  a \<^verbatim>\<open>TypeError\<close>, which is an instance of \<^verbatim>\<open>Error\<close>.
\<close>

definition read_response :: "(fault \<Rightarrow> string) \<Rightarrow> generateContentResponse \<Rightarrow> thrown + string" where
  "read_response te response =
     (case candidates response of
        None \<Rightarrow> Inl (ErrorInstance (te (ReadOfUndefined ''0'')))
      | Some [] \<Rightarrow> Inl (ErrorInstance (te (ReadOfUndefined ''content'')))
      | Some (c # _) \<Rightarrow>
          (case content c of
             None \<Rightarrow> Inl (ErrorInstance (te (ReadOfUndefined ''parts'')))
           | Some ct \<Rightarrow>
               (case parts ct of
                  None \<Rightarrow> Inl (ErrorInstance (te NotIterable))
                | Some ps \<Rightarrow>
                    (case scan_parts ps of
                       Some d \<Rightarrow> Inr d
                     | None \<Rightarrow> Inl (ErrorInstance no_image_message)))))"

subsection \<open>The exported function (lines 18 to 66)\<close>

text \<open>The body of the \<^verbatim>\<open>try\<close> block: the call, then the reading of the response.\<close>

definition try_block ::
  "'w runtime \<Rightarrow> string \<Rightarrow> string \<Rightarrow> string \<Rightarrow> 'w \<Rightarrow> (thrown + string) \<times> 'w" where
  "try_block rt base64ImageData mimeType' aspectRatio w =
     (case ai rt (request base64ImageData mimeType' aspectRatio) w of
        (Inl e, w') \<Rightarrow> (Inl e, w')
      | (Inr response, w') \<Rightarrow> (read_response (typeError rt) response, w'))"

text \<open>The \<^verbatim>\<open>catch\<close> block: what is thrown in place of the caught value.\<close>

definition rethrown :: "thrown \<Rightarrow> thrown" where
  "rethrown e =
     (case e of
        ErrorInstance message \<Rightarrow> ErrorInstance (''Failed to generate ID photo: '' @ message)
      | NonError _ \<Rightarrow> ErrorInstance ''An unknown error occurred while generating the ID photo.'')"

text \<open>
  The result of a call: how the promise settles, the effects in order (the request
  handed to the client, the value logged by \<^verbatim>\<open>console.error\<close>), and the state
  of the outside world after the call.
\<close>

definition transformToIdPhoto ::
  "'w runtime \<Rightarrow> string \<Rightarrow> string \<Rightarrow> string \<Rightarrow> 'w \<Rightarrow> outcome \<times> event list \<times> 'w" where
  "transformToIdPhoto rt base64ImageData mimeType' aspectRatio w =
     (case try_block rt base64ImageData mimeType' aspectRatio w of
        (Inr d, w') \<Rightarrow>
          (Resolved d, [GenerateContent (request base64ImageData mimeType' aspectRatio)], w')
      | (Inl e, w') \<Rightarrow>
          (Rejected (rethrown e),
           [GenerateContent (request base64ImageData mimeType' aspectRatio), ConsoleError e], w'))"

text \<open>The requests that a list of effects handed to the client.\<close>

fun sent :: "event list \<Rightarrow> generateContentParameters list" where
  "sent [] = []"
| "sent (GenerateContent r # es) = r # sent es"
| "sent (_ # es) = sent es"


text \<open>
  The condition of line 52, \<^verbatim>\<open>part.inlineData && part.inlineData.data\<close>.
\<close>

definition carries_image :: "part \<Rightarrow> bool" where
  "carries_image p = (case inlineData p of None \<Rightarrow> False | Some b \<Rightarrow> \<not> falsy (data b))"

subsection \<open>Sample clients and responses\<close>

text \<open>
  A client that answers every request with the same response, and one that fails every
  request with the same thrown value. The state of the outside world is the number of
  requests served so far.
\<close>

definition answering :: "generateContentResponse \<Rightarrow> nat client" where
  "answering response = (\<lambda>r n. (Inr response, Suc n))"

definition failing :: "thrown \<Rightarrow> nat client" where
  "failing e = (\<lambda>r n. (Inl e, Suc n))"

text \<open>A sample wording of the engine's \<^verbatim>\<open>TypeError\<close>s.\<close>

definition sample_typeError :: "fault \<Rightarrow> string" where
  "sample_typeError f =
     (case f of
        ReadOfUndefined p \<Rightarrow> ''Cannot read properties of undefined, reading '' @ p
      | NotIterable \<Rightarrow> ''undefined is not iterable'')"

definition text_part :: "string \<Rightarrow> part" where
  "text_part s = \<lparr>inlineData = None, text' = Some s\<rparr>"

definition image_part :: "string \<Rightarrow> string \<Rightarrow> part" where
  "image_part d m = \<lparr>inlineData = Some \<lparr>data = Some d, mimeType = Some m\<rparr>, text' = None\<rparr>"

definition response_of :: "part list \<Rightarrow> generateContentResponse" where
  "response_of ps = \<lparr>candidates = Some [\<lparr>content = Some \<lparr>parts = Some ps\<rparr>\<rparr>]\<rparr>"

definition sample_runtime :: "nat client \<Rightarrow> nat runtime" where
  "sample_runtime c = \<lparr>ai = c, typeError = sample_typeError\<rparr>"

definition sample_parts :: "part list" where
  "sample_parts =
     [text_part ''ok'', image_part ''QUJD'' ''image/png'', text_part ''done'',
      image_part ''REVG'' ''image/jpeg'']"

definition empty_image_parts :: "part list" where
  "empty_image_parts =
     [\<lparr>inlineData = Some \<lparr>data = Some [], mimeType = Some ''image/png''\<rparr>, text' = None\<rparr>,
      text_part ''I cannot help'',
      \<lparr>inlineData = Some \<lparr>data = None, mimeType = Some ''image/png''\<rparr>, text' = None\<rparr>]"

subsection \<open>Observing what the client receives\<close>

text \<open>
  A client that keeps, in the state of the outside world, the list of the requests it
  was called with, in order, and otherwise behaves as the client \<open>c\<close> does.
\<close>

definition recording :: "'w client \<Rightarrow> (generateContentParameters list \<times> 'w) client" where
  "recording c = (\<lambda>r (log, w). case c r w of (res, w') \<Rightarrow> (res, (log @ [r], w')))"







section \<open>Properties\<close>

subsection \<open>The loop over the parts\<close>

lemma scan_parts_skip:
  "\<not> carries_image p \<Longrightarrow> scan_parts (p # ps) = scan_parts ps"
  by (simp add: carries_image_def split: option.splits)

lemma scan_parts_hit:
  "inlineData p = Some b \<Longrightarrow> data b = Some d \<Longrightarrow> d \<noteq> [] \<Longrightarrow> scan_parts (p # ps) = Some d"
  by (simp add: falsy_def)

lemma scan_parts_first:
  assumes "\<forall>q\<in>set pre. \<not> carries_image q"
    and "inlineData p = Some b" and "data b = Some d" and "d \<noteq> []"
  shows "scan_parts (pre @ p # post) = Some d"
  using assms(1)
proof (induction pre)
  case Nil
  show ?case using assms(2-4) by (simp add: scan_parts_hit del: scan_parts.simps)
next
  case (Cons q qs)
  then show ?case by (simp add: scan_parts_skip del: scan_parts.simps)
qed

lemma scan_parts_none:
  "(\<forall>p\<in>set ps. \<not> carries_image p) \<Longrightarrow> scan_parts ps = None"
  by (induction ps) (simp_all add: scan_parts_skip del: scan_parts.simps(2))

lemma scan_parts_Some:
  "scan_parts ps = Some d \<Longrightarrow>
   \<exists>pre p post b. ps = pre @ p # post \<and> (\<forall>q\<in>set pre. \<not> carries_image q) \<and>
     inlineData p = Some b \<and> data b = Some d \<and> d \<noteq> []"
proof (induction ps)
  case Nil
  then show ?case by simp
next
  case (Cons x xs)
  show ?case
  proof (cases "carries_image x")
    case True
    then obtain b where b: "inlineData x = Some b" "\<not> falsy (data b)"
      by (auto simp: carries_image_def split: option.splits)
    with Cons.prems have "data b = Some d" by simp
    moreover from this b have "d \<noteq> []" by (simp add: falsy_def)
    ultimately have "x # xs = [] @ x # xs \<and> (\<forall>q\<in>set []. \<not> carries_image q) \<and>
      inlineData x = Some b \<and> data b = Some d \<and> d \<noteq> []"
      using b by simp
    then show ?thesis by blast
  next
    case False
    with Cons.prems have "scan_parts xs = Some d"
      by (simp add: scan_parts_skip del: scan_parts.simps)
    from Cons.IH [OF this] obtain pre p post b where
      *: "xs = pre @ p # post" "\<forall>q\<in>set pre. \<not> carries_image q"
         "inlineData p = Some b" "data b = Some d" "d \<noteq> []"
      by blast
    from * False have "x # xs = (x # pre) @ p # post \<and> (\<forall>q\<in>set (x # pre). \<not> carries_image q) \<and>
      inlineData p = Some b \<and> data b = Some d \<and> d \<noteq> []"
      by simp
    then show ?thesis by blast
  qed
qed

subsection \<open>From the answer of the client to the outcome of the call\<close>

lemma outcome_of_try:
  "fst (transformToIdPhoto rt b m a w) =
     (case fst (try_block rt b m a w) of Inr d \<Rightarrow> Resolved d | Inl e \<Rightarrow> Rejected (rethrown e))"
  by (simp add: transformToIdPhoto_def split: prod.splits sum.splits)

lemma try_of_failure:
  "fst (ai rt (request b m a) w) = Inl e \<Longrightarrow> fst (try_block rt b m a w) = Inl e"
  by (cases "ai rt (request b m a) w") (simp add: try_block_def)

lemma try_of_answer:
  "fst (ai rt (request b m a) w) = Inr response \<Longrightarrow>
   fst (try_block rt b m a w) = read_response (typeError rt) response"
  by (cases "ai rt (request b m a) w") (simp add: try_block_def)

lemma read_response_parts:
  "candidates response = Some (c # cs) \<Longrightarrow> content c = Some ct \<Longrightarrow> parts ct = Some ps \<Longrightarrow>
   read_response te response =
     (case scan_parts ps of Some d \<Rightarrow> Inr d | None \<Rightarrow> Inl (ErrorInstance no_image_message))"
  by (simp add: read_response_def)

lemma read_response_Inl:
  "read_response te response = Inl e \<Longrightarrow> \<exists>msg. e = ErrorInstance msg"
  by (auto simp: read_response_def split: option.splits list.splits)

lemma sent_transform:
  "sent (fst (snd (transformToIdPhoto rt b m a w))) = [request b m a]"
  by (simp add: transformToIdPhoto_def split: prod.splits sum.splits)


lemma read_response_Inr:
  "read_response te response = Inr d \<Longrightarrow>
   \<exists>c cs ct ps. candidates response = Some (c # cs) \<and> content c = Some ct \<and>
     parts ct = Some ps \<and> scan_parts ps = Some d"
  by (auto simp: read_response_def split: option.splits list.splits)

lemma try_block_cases:
  "try_block rt b m a w =
     (case fst (ai rt (request b m a) w) of
        Inl e \<Rightarrow> Inl e
      | Inr response \<Rightarrow> read_response (typeError rt) response,
      snd (ai rt (request b m a) w))"
  by (cases "ai rt (request b m a) w") (simp add: try_block_def split: sum.splits)

lemma world_after_transform:
  "snd (snd (transformToIdPhoto rt b m a w)) = snd (ai rt (request b m a) w)"
  by (simp add: transformToIdPhoto_def try_block_cases split: sum.splits)

lemma events_of_transform:
  "\<exists>rest. fst (snd (transformToIdPhoto rt b m a w)) = GenerateContent (request b m a) # rest"
  by (simp add: transformToIdPhoto_def split: prod.splits sum.splits)

lemma resolved_from_scan:
  assumes "fst (transformToIdPhoto rt b m a w) = Resolved d"
  shows "\<exists>response c cs ct ps. fst (ai rt (request b m a) w) = Inr response \<and>
           candidates response = Some (c # cs) \<and> content c = Some ct \<and>
           parts ct = Some ps \<and> scan_parts ps = Some d"
proof -
  from assms have t: "fst (try_block rt b m a w) = Inr d"
    by (simp add: outcome_of_try split: sum.splits)
  then obtain response where r: "fst (ai rt (request b m a) w) = Inr response"
    by (cases "fst (ai rt (request b m a) w)") (simp_all add: try_block_cases)
  with t have "read_response (typeError rt) response = Inr d"
    by (simp add: try_of_answer)
  from read_response_Inr [OF this] r show ?thesis
    by blast
qed

lemma recording_log:
  "fst (snd (recording c r (log, w))) = log @ [r]"
  by (simp add: recording_def split: prod.splits)

lemma recording_result:
  "fst (recording c r (log, w)) = fst (c r w)"
  by (simp add: recording_def split: prod.splits)



subsection \<open>The claims\<close>

text \<open>
  C1. When the client answers with a response whose first candidate has a list of parts
  among which at least one carries inline image data (an \<^verbatim>\<open>inlineData\<close> with
  a non-empty \<^verbatim>\<open>data\<close>), the call resolves with the data of the first such
  part: the list splits into parts that carry no image, that part, and a rest that is
  not looked at, whatever text or image parts it holds.
\<close>

theorem transform_resolves_first_image:
  assumes "fst (ai rt (request b m a) w) = Inr response"
    and "candidates response = Some (c # cs)"
    and "content c = Some ct"
    and "parts ct = Some ps"
    and "\<exists>p\<in>set ps. carries_image p"
  shows "\<exists>pre p post bl d. ps = pre @ p # post \<and> (\<forall>q\<in>set pre. \<not> carries_image q) \<and>
           carries_image p \<and> inlineData p = Some bl \<and> data bl = Some d \<and>
           fst (transformToIdPhoto rt b m a w) = Resolved d"
proof -
  from split_list_first_prop [OF assms(5)] obtain pre p post where
    split: "ps = pre @ p # post" "carries_image p" "\<forall>q\<in>set pre. \<not> carries_image q"
    by blast
  from split(2) obtain bl d where
    payload: "inlineData p = Some bl" "data bl = Some d" "d \<noteq> []"
    by (auto simp: carries_image_def falsy_def split: option.splits)
  have "scan_parts ps = Some d"
    unfolding split(1) using split(3) payload by (rule scan_parts_first)
  then have "read_response (typeError rt) response = Inr d"
    using assms(2-4) by (simp add: read_response_parts)
  then have "fst (try_block rt b m a w) = Inr d"
    using assms(1) by (simp add: try_of_answer)
  then have "fst (transformToIdPhoto rt b m a w) = Resolved d"
    by (simp add: outcome_of_try)
  with split payload show ?thesis by blast
qed

theorem transform_resolves_first_image_witness:
  "(\<exists>p\<in>set sample_parts. carries_image p) \<and>
   (\<exists>pre p post bl d. sample_parts = pre @ p # post \<and> (\<forall>q\<in>set pre. \<not> carries_image q) \<and>
      carries_image p \<and> inlineData p = Some bl \<and> data bl = Some d \<and>
      fst (transformToIdPhoto (sample_runtime (answering (response_of sample_parts)))
             ''AAAA'' ''image/png'' ''3:4'' 0) = Resolved d) \<and>
   fst (transformToIdPhoto (sample_runtime (answering (response_of sample_parts)))
          ''AAAA'' ''image/png'' ''3:4'' 0) = Resolved ''QUJD''"
proof -
  let ?rt = "sample_runtime (answering (response_of sample_parts))"
  have h1: "fst (ai ?rt (request ''AAAA'' ''image/png'' ''3:4'') 0) = Inr (response_of sample_parts)"
    by (simp add: sample_runtime_def answering_def)
  have h2: "candidates (response_of sample_parts) = Some (\<lparr>content = Some \<lparr>parts = Some sample_parts\<rparr>\<rparr> # [])"
    by (simp add: response_of_def)
  have h3: "content \<lparr>content = Some \<lparr>parts = Some sample_parts\<rparr>\<rparr> = Some \<lparr>parts = Some sample_parts\<rparr>"
    by simp
  have h4: "parts \<lparr>parts = Some sample_parts\<rparr> = Some sample_parts"
    by simp
  have h5: "\<exists>p\<in>set sample_parts. carries_image p"
    by (simp add: sample_parts_def carries_image_def image_part_def text_part_def falsy_def)
  have run: "fst (transformToIdPhoto ?rt ''AAAA'' ''image/png'' ''3:4'' 0) = Resolved ''QUJD''"
    by (simp add: transformToIdPhoto_def try_block_def sample_runtime_def answering_def
        read_response_def response_of_def sample_parts_def image_part_def text_part_def falsy_def)
  from h5 transform_resolves_first_image [OF h1 h2 h3 h4 h5] run show ?thesis
    by blast
qed

text \<open>
  C2. When the parts of the response are text parts only (no part has an
  \<^verbatim>\<open>inlineData\<close>), the call rejects with an \<^verbatim>\<open>Error\<close> whose message is
  the fixed no-image message behind the prefix \<^verbatim>\<open>Failed to generate ID photo: \<close>.
\<close>

theorem transform_text_only_rejects:
  assumes "fst (ai rt (request b m a) w) = Inr response"
    and "candidates response = Some (c # cs)"
    and "content c = Some ct"
    and "parts ct = Some ps"
    and "\<forall>p\<in>set ps. inlineData p = None"
  shows "fst (transformToIdPhoto rt b m a w) =
           Rejected (ErrorInstance
             ''Failed to generate ID photo: The AI did not return an image. Please try a different photo.'')"
proof -
  from assms(5) have "\<forall>p\<in>set ps. \<not> carries_image p"
    by (simp add: carries_image_def)
  then have "scan_parts ps = None"
    by (rule scan_parts_none)
  then have "read_response (typeError rt) response = Inl (ErrorInstance no_image_message)"
    using assms(2-4) by (simp add: read_response_parts)
  then have "fst (try_block rt b m a w) = Inl (ErrorInstance no_image_message)"
    using assms(1) by (simp add: try_of_answer)
  then show ?thesis
    by (simp add: outcome_of_try rethrown_def no_image_message_def)
qed

theorem transform_text_only_rejects_witness:
  "inlineData (text_part ''I cannot help'') = None \<and>
   fst (transformToIdPhoto (sample_runtime (answering (response_of [text_part ''I cannot help''])))
          ''AAAA'' ''image/png'' ''3:4'' 0) =
     Rejected (ErrorInstance
       ''Failed to generate ID photo: The AI did not return an image. Please try a different photo.'')"
proof -
  let ?ps = "[text_part ''I cannot help'']"
  let ?rt = "sample_runtime (answering (response_of ?ps))"
  have h1: "fst (ai ?rt (request ''AAAA'' ''image/png'' ''3:4'') 0) = Inr (response_of ?ps)"
    by (simp add: sample_runtime_def answering_def)
  have h2: "candidates (response_of ?ps) = Some (\<lparr>content = Some \<lparr>parts = Some ?ps\<rparr>\<rparr> # [])"
    by (simp add: response_of_def)
  have h3: "content \<lparr>content = Some \<lparr>parts = Some ?ps\<rparr>\<rparr> = Some \<lparr>parts = Some ?ps\<rparr>"
    by simp
  have h4: "parts \<lparr>parts = Some ?ps\<rparr> = Some ?ps"
    by simp
  have h5: "\<forall>p\<in>set ?ps. inlineData p = None"
    by (simp add: text_part_def)
  from transform_text_only_rejects [OF h1 h2 h3 h4 h5] show ?thesis
    by (simp add: text_part_def)
qed


text \<open>
  C3. Every failure of the call is signalled again in one form. When the client fails
  with an \<^verbatim>\<open>Error\<close>, the call rejects with an \<^verbatim>\<open>Error\<close> whose message
  is the prefix \<^verbatim>\<open>Failed to generate ID photo: \<close> followed by the message of the
  cause; when the client fails with a value that is not an \<^verbatim>\<open>Error\<close>, the call
  rejects with the fixed generic message; when the reading of the response throws (the
  no-image failure of line 57 is the case \<open>cause = no_image_message\<close>), the call
  rejects with the prefixed message of the cause. In each case the promise is rejected:
  nothing is resolved.
\<close>

theorem transform_failure_uniform:
  "(fst (ai rt (request b m a) w) = Inl (ErrorInstance cause) \<longrightarrow>
      fst (transformToIdPhoto rt b m a w) =
        Rejected (ErrorInstance (''Failed to generate ID photo: '' @ cause))) \<and>
   (fst (ai rt (request b m a) w) = Inl (NonError v) \<longrightarrow>
      fst (transformToIdPhoto rt b m a w) =
        Rejected (ErrorInstance ''An unknown error occurred while generating the ID photo.'')) \<and>
   (fst (ai rt (request b m a) w) = Inr response \<and>
    read_response (typeError rt) response = Inl (ErrorInstance cause) \<longrightarrow>
      fst (transformToIdPhoto rt b m a w) =
        Rejected (ErrorInstance (''Failed to generate ID photo: '' @ cause)))"
  by (simp add: outcome_of_try try_of_failure try_of_answer rethrown_def)

theorem transform_failure_uniform_witness:
  "fst (transformToIdPhoto (sample_runtime (failing (ErrorInstance ''quota exceeded'')))
          ''AAAA'' ''image/png'' ''3:4'' 0) =
     Rejected (ErrorInstance ''Failed to generate ID photo: quota exceeded'') \<and>
   fst (transformToIdPhoto (sample_runtime (failing (NonError ''503'')))
          ''AAAA'' ''image/png'' ''3:4'' 0) =
     Rejected (ErrorInstance ''An unknown error occurred while generating the ID photo.'') \<and>
   fst (transformToIdPhoto (sample_runtime (answering (response_of [text_part ''I cannot help''])))
          ''AAAA'' ''image/png'' ''3:4'' 0) =
     Rejected (ErrorInstance
       ''Failed to generate ID photo: The AI did not return an image. Please try a different photo.'')"
proof -
  let ?r = "request ''AAAA'' ''image/png'' ''3:4''"
  let ?rt1 = "sample_runtime (failing (ErrorInstance ''quota exceeded''))"
  let ?rt2 = "sample_runtime (failing (NonError ''503''))"
  let ?resp = "response_of [text_part ''I cannot help'']"
  let ?rt3 = "sample_runtime (answering ?resp)"
  have h1: "fst (ai ?rt1 ?r 0) = Inl (ErrorInstance ''quota exceeded'')"
    by (simp add: sample_runtime_def failing_def)
  have h2: "fst (ai ?rt2 ?r 0) = Inl (NonError ''503'')"
    by (simp add: sample_runtime_def failing_def)
  have h3: "fst (ai ?rt3 ?r 0) = Inr ?resp \<and>
      read_response (typeError ?rt3) ?resp = Inl (ErrorInstance no_image_message)"
    by (simp add: sample_runtime_def answering_def read_response_def response_of_def
        text_part_def)
  from h1 transform_failure_uniform [of ?rt1 "''AAAA''" "''image/png''" "''3:4''" 0 "''quota exceeded''"]
  have c1: "fst (transformToIdPhoto ?rt1 ''AAAA'' ''image/png'' ''3:4'' 0) =
      Rejected (ErrorInstance (''Failed to generate ID photo: '' @ ''quota exceeded''))"
    by blast
  from h2 transform_failure_uniform [of ?rt2 "''AAAA''" "''image/png''" "''3:4''" 0 _ "''503''"]
  have c2: "fst (transformToIdPhoto ?rt2 ''AAAA'' ''image/png'' ''3:4'' 0) =
      Rejected (ErrorInstance ''An unknown error occurred while generating the ID photo.'')"
    by blast
  from h3 transform_failure_uniform [of ?rt3 "''AAAA''" "''image/png''" "''3:4''" 0 no_image_message _ ?resp]
  have c3: "fst (transformToIdPhoto ?rt3 ''AAAA'' ''image/png'' ''3:4'' 0) =
      Rejected (ErrorInstance (''Failed to generate ID photo: '' @ no_image_message))"
    by blast
  from c1 c2 c3 show ?thesis
    by (simp add: no_image_message_def)
qed

text \<open>
  C4. For every image, media type and aspect ratio, the instruction text holds the
  aspect ratio as given at two places that do not overlap: after
  \<^verbatim>\<open>It **MUST BE EXACTLY \<close> in the first item, where the dimension is first
  required, and after \<^verbatim>\<open>aspect ratio **MUST be \<close> in the reminder that ends the
  instruction.
\<close>

theorem instruction_mentions_aspect_ratio_twice:
  "\<exists>before between image.
     instruction a =
       before @ ''It **MUST BE EXACTLY '' @ a @ '' (width to height)**'' @ between @
       ''Reminder: The final image's aspect ratio **MUST be '' @ a @
       ''**. This is a strict requirement.'' \<and>
     parts (contents (request b m a)) =
       Some [image, \<lparr>inlineData = None, text' = Some (instruction a)\<rparr>]"
proof -
  let ?before =
    "''Transform the person in the image into a standard ID photo.\<newline>'' @
     ''\<newline>'' @
     ''**CRITICAL INSTRUCTIONS:**\<newline>'' @
     ''1.  **Final Image Dimensions:** The MOST IMPORTANT requirement is the final image's aspect ratio. ''"
  let ?between =
    "''. The entire output image file must have this specific shape. This instruction is more important than all others. Do not fail on this.\<newline>'' @
     ''2.  **Attire:** Dress the person in a simple, plain white collared shirt.\<newline>'' @
     ''3.  **Posture:** The person must face forward, looking directly at the camera with their shoulders straight and squared.\<newline>'' @
     ''4.  **Background:** Replace the entire background with a solid, plain, professional light blue color.\<newline>'' @
     ''5.  **Composition:** Crop the image to a head-and-shoulders portrait.\<newline>'' @
     ''6.  **Identity Preservation:** Do not change the person's face, hair, or identity.\<newline>'' @
     ''\<newline>''"
  have eq: "instruction a =
      ?before @ ''It **MUST BE EXACTLY '' @ a @ '' (width to height)**'' @ ?between @
      ''Reminder: The final image's aspect ratio **MUST be '' @ a @
      ''**. This is a strict requirement.''"
    by (simp add: instruction_def)
  have "parts (contents (request b m a)) =
      Some [\<lparr>inlineData = Some \<lparr>data = Some b, mimeType = Some m\<rparr>, text' = None\<rparr>,
            \<lparr>inlineData = None, text' = Some (instruction a)\<rparr>]"
    by (simp add: request_def)
  with eq show ?thesis
    by blast
qed


text \<open>
  C5. The request of a call has two parts: the image given, as inline data with the
  media type given, and the instruction as text; it is the one request that the call
  hands to the client. A call that resolves with an image resolves with one piece of
  data: that of the first part of the response that carries inline image data, whatever
  parts follow it.
\<close>

theorem one_image_in_one_image_out:
  "parts (contents (request b m a)) =
     Some [\<lparr>inlineData = Some \<lparr>data = Some b, mimeType = Some m\<rparr>, text' = None\<rparr>,
           \<lparr>inlineData = None, text' = Some (instruction a)\<rparr>] \<and>
   sent (fst (snd (transformToIdPhoto rt b m a w))) = [request b m a] \<and>
   (fst (transformToIdPhoto rt b m a w) = Resolved d \<longrightarrow>
      (\<exists>response c cs ct pre p post bl.
         fst (ai rt (request b m a) w) = Inr response \<and>
         candidates response = Some (c # cs) \<and> content c = Some ct \<and>
         parts ct = Some (pre @ p # post) \<and> (\<forall>q\<in>set pre. \<not> carries_image q) \<and>
         inlineData p = Some bl \<and> data bl = Some d \<and> d \<noteq> []))"
proof -
  have "fst (transformToIdPhoto rt b m a w) = Resolved d \<Longrightarrow>
      \<exists>response c cs ct pre p post bl.
         fst (ai rt (request b m a) w) = Inr response \<and>
         candidates response = Some (c # cs) \<and> content c = Some ct \<and>
         parts ct = Some (pre @ p # post) \<and> (\<forall>q\<in>set pre. \<not> carries_image q) \<and>
         inlineData p = Some bl \<and> data bl = Some d \<and> d \<noteq> []"
  proof -
    assume "fst (transformToIdPhoto rt b m a w) = Resolved d"
    from resolved_from_scan [OF this] obtain response c cs ct ps where
      r: "fst (ai rt (request b m a) w) = Inr response" "candidates response = Some (c # cs)"
         "content c = Some ct" "parts ct = Some ps" "scan_parts ps = Some d"
      by blast
    from scan_parts_Some [OF r(5)] obtain pre p post bl where
      "ps = pre @ p # post" "\<forall>q\<in>set pre. \<not> carries_image q"
      "inlineData p = Some bl" "data bl = Some d" "d \<noteq> []"
      by blast
    with r show ?thesis by blast
  qed
  then show ?thesis
    by (simp add: request_def [of b m a] sent_transform)
qed

theorem one_image_in_one_image_out_witness:
  "fst (transformToIdPhoto (sample_runtime (answering (response_of sample_parts)))
          ''AAAA'' ''image/png'' ''3:4'' 0) = Resolved ''QUJD'' \<and>
   (\<exists>response c cs ct pre p post bl.
      fst (ai (sample_runtime (answering (response_of sample_parts)))
             (request ''AAAA'' ''image/png'' ''3:4'') 0) = Inr response \<and>
      candidates response = Some (c # cs) \<and> content c = Some ct \<and>
      parts ct = Some (pre @ p # post) \<and> (\<forall>q\<in>set pre. \<not> carries_image q) \<and>
      inlineData p = Some bl \<and> data bl = Some ''QUJD'' \<and> ''QUJD'' \<noteq> [])"
proof -
  let ?rt = "sample_runtime (answering (response_of sample_parts))"
  have run: "fst (transformToIdPhoto ?rt ''AAAA'' ''image/png'' ''3:4'' 0) = Resolved ''QUJD''"
    by (simp add: transformToIdPhoto_def try_block_def sample_runtime_def answering_def
        read_response_def response_of_def sample_parts_def image_part_def text_part_def falsy_def)
  from run one_image_in_one_image_out [of "''AAAA''" "''image/png''" "''3:4''" ?rt 0 "''QUJD''"]
  show ?thesis
    by blast
qed

text \<open>
  C6. In every call the client is called once, and the request it receives declares the
  response modalities image and text: a client that keeps the requests it is called
  with has, after the call, one request more than before, with these two modalities.
\<close>

theorem request_accepts_image_and_text:
  "\<exists>r. fst (snd (snd (transformToIdPhoto \<lparr>ai = recording c, typeError = te\<rparr> b m a (log, w)))) =
          log @ [r] \<and>
        responseModalities (config r) = [IMAGE, TEXT]"
  by (simp add: world_after_transform recording_log request_def)





text \<open>
  C9. A part whose \<^verbatim>\<open>inlineData\<close> has no \<^verbatim>\<open>data\<close> or the empty string as
  \<^verbatim>\<open>data\<close> is passed over by the loop. When this is so for every part of the
  response that has an \<^verbatim>\<open>inlineData\<close>, the call rejects with the prefixed
  no-image message, although such parts are present.
\<close>

theorem empty_payload_is_skipped:
  assumes "fst (ai rt (request b m a) w) = Inr response"
    and "candidates response = Some (c # cs)"
    and "content c = Some ct"
    and "parts ct = Some ps"
    and "\<forall>p\<in>set ps. \<forall>bl. inlineData p = Some bl \<longrightarrow> data bl = None \<or> data bl = Some []"
  shows "fst (transformToIdPhoto rt b m a w) =
           Rejected (ErrorInstance
             ''Failed to generate ID photo: The AI did not return an image. Please try a different photo.'') \<and>
         (inlineData q = Some bl' \<and> (data bl' = None \<or> data bl' = Some []) \<longrightarrow>
            scan_parts (q # rest) = scan_parts rest)"
proof -
  from assms(5) have "\<forall>p\<in>set ps. \<not> carries_image p"
    by (auto simp: carries_image_def falsy_def split: option.splits)
  then have "scan_parts ps = None"
    by (rule scan_parts_none)
  then have "read_response (typeError rt) response = Inl (ErrorInstance no_image_message)"
    using assms(2-4) by (simp add: read_response_parts)
  then have "fst (try_block rt b m a w) = Inl (ErrorInstance no_image_message)"
    using assms(1) by (simp add: try_of_answer)
  then have "fst (transformToIdPhoto rt b m a w) =
      Rejected (ErrorInstance
        ''Failed to generate ID photo: The AI did not return an image. Please try a different photo.'')"
    by (simp add: outcome_of_try rethrown_def no_image_message_def)
  moreover have "inlineData q = Some bl' \<and> (data bl' = None \<or> data bl' = Some []) \<longrightarrow>
      scan_parts (q # rest) = scan_parts rest"
    by (auto simp: falsy_def)
  ultimately show ?thesis
    by blast
qed

theorem empty_payload_is_skipped_witness:
  "(\<exists>p\<in>set empty_image_parts. inlineData p \<noteq> None) \<and>
   fst (transformToIdPhoto (sample_runtime (answering (response_of empty_image_parts)))
          ''AAAA'' ''image/png'' ''3:4'' 0) =
     Rejected (ErrorInstance
       ''Failed to generate ID photo: The AI did not return an image. Please try a different photo.'') \<and>
   scan_parts (\<lparr>inlineData = Some \<lparr>data = Some [], mimeType = Some ''image/png''\<rparr>, text' = None\<rparr> #
               [image_part ''QUJD'' ''image/png'']) =
     scan_parts [image_part ''QUJD'' ''image/png'']"
proof -
  let ?ps = "empty_image_parts"
  let ?rt = "sample_runtime (answering (response_of ?ps))"
  let ?bl = "\<lparr>data = Some [], mimeType = Some ''image/png''\<rparr>"
  let ?q = "\<lparr>inlineData = Some ?bl, text' = None\<rparr>"
  have h1: "fst (ai ?rt (request ''AAAA'' ''image/png'' ''3:4'') 0) = Inr (response_of ?ps)"
    by (simp add: sample_runtime_def answering_def)
  have h2: "candidates (response_of ?ps) = Some (\<lparr>content = Some \<lparr>parts = Some ?ps\<rparr>\<rparr> # [])"
    by (simp add: response_of_def)
  have h3: "content \<lparr>content = Some \<lparr>parts = Some ?ps\<rparr>\<rparr> = Some \<lparr>parts = Some ?ps\<rparr>"
    by simp
  have h4: "parts \<lparr>parts = Some ?ps\<rparr> = Some ?ps"
    by simp
  have h5: "\<forall>p\<in>set ?ps. \<forall>bl. inlineData p = Some bl \<longrightarrow> data bl = None \<or> data bl = Some []"
    by (simp add: empty_image_parts_def text_part_def)
  have h6: "inlineData ?q = Some ?bl \<and> (data ?bl = None \<or> data ?bl = Some [])"
    by simp
  have h7: "\<exists>p\<in>set ?ps. inlineData p \<noteq> None"
    by (simp add: empty_image_parts_def)
  from h6 h7 empty_payload_is_skipped [OF h1 h2 h3 h4 h5, of ?q ?bl "[image_part ''QUJD'' ''image/png'']"]
  show ?thesis
    by blast
qed

text \<open>
  C10. Whatever the client does and whatever the response holds (no candidates, no
  first candidate, a candidate with no content, a content with no list of parts), a call
  that rejects rejects with an \<^verbatim>\<open>Error\<close> whose message starts with
  \<^verbatim>\<open>Failed to generate ID photo: \<close> or is the fixed generic message: the value
  thrown inside the call never reaches the caller as it is.
\<close>

theorem rejection_is_always_wrapped:
  assumes "fst (transformToIdPhoto rt b m a w) = Rejected e"
  shows "\<exists>msg. e = ErrorInstance msg \<and>
           (prefix ''Failed to generate ID photo: '' msg \<or>
            msg = ''An unknown error occurred while generating the ID photo.'')"
proof (cases "fst (try_block rt b m a w)")
  case (Inl cause)
  with assms have e: "e = rethrown cause"
    by (simp add: outcome_of_try)
  show ?thesis
  proof (cases cause)
    case (ErrorInstance message)
    with e have "e = ErrorInstance (''Failed to generate ID photo: '' @ message)"
      by (simp add: rethrown_def)
    moreover have "prefix ''Failed to generate ID photo: '' (''Failed to generate ID photo: '' @ message)"
      by (rule prefixI) simp
    ultimately show ?thesis by blast
  next
    case (NonError v)
    with e show ?thesis
      by (simp add: rethrown_def)
  qed
next
  case (Inr d)
  with assms show ?thesis
    by (simp add: outcome_of_try)
qed

theorem rejection_is_always_wrapped_witness:
  "fst (transformToIdPhoto (sample_runtime (answering \<lparr>candidates = None\<rparr>))
          ''AAAA'' ''image/png'' ''3:4'' 0) =
     Rejected (ErrorInstance
       ''Failed to generate ID photo: Cannot read properties of undefined, reading 0'') \<and>
   fst (transformToIdPhoto (sample_runtime (answering \<lparr>candidates = Some [\<lparr>content = Some \<lparr>parts = None\<rparr>\<rparr>]\<rparr>))
          ''AAAA'' ''image/png'' ''3:4'' 0) =
     Rejected (ErrorInstance ''Failed to generate ID photo: undefined is not iterable'') \<and>
   (\<exists>msg. ErrorInstance ''Failed to generate ID photo: Cannot read properties of undefined, reading 0'' =
            ErrorInstance msg \<and>
          (prefix ''Failed to generate ID photo: '' msg \<or>
           msg = ''An unknown error occurred while generating the ID photo.'')) \<and>
   (\<exists>msg. ErrorInstance ''Failed to generate ID photo: undefined is not iterable'' =
            ErrorInstance msg \<and>
          (prefix ''Failed to generate ID photo: '' msg \<or>
           msg = ''An unknown error occurred while generating the ID photo.''))"
proof -
  let ?rt1 = "sample_runtime (answering \<lparr>candidates = None\<rparr>)"
  let ?rt2 = "sample_runtime (answering \<lparr>candidates = Some [\<lparr>content = Some \<lparr>parts = None\<rparr>\<rparr>]\<rparr>)"
  have r1: "fst (transformToIdPhoto ?rt1 ''AAAA'' ''image/png'' ''3:4'' 0) =
      Rejected (ErrorInstance
        ''Failed to generate ID photo: Cannot read properties of undefined, reading 0'')"
    by (simp add: transformToIdPhoto_def try_block_def sample_runtime_def answering_def
        read_response_def sample_typeError_def rethrown_def)
  have r2: "fst (transformToIdPhoto ?rt2 ''AAAA'' ''image/png'' ''3:4'' 0) =
      Rejected (ErrorInstance ''Failed to generate ID photo: undefined is not iterable'')"
    by (simp add: transformToIdPhoto_def try_block_def sample_runtime_def answering_def
        read_response_def sample_typeError_def rethrown_def)
  from r1 r2 rejection_is_always_wrapped [OF r1] rejection_is_always_wrapped [OF r2]
  show ?thesis
    by blast
qed

end
